theory Spec2Isabelle
  imports Complex_Main "HOL-Library.Sublist"
begin

section \<open>Python values and failures\<close>

text \<open>
  The module \<^verbatim>\<open>bin/Screens.py\<close> drives a monochrome OLED: a \<^verbatim>\<open>Display\<close> owns the device
  driver and a PIL canvas, a \<^verbatim>\<open>BaseScreen\<close> lays text lines out on it.  Python integers are
  unbounded (\<^typ>\<open>int\<close>), strings are \<^typ>\<open>string\<close> (ASCII class names and
  messages), an exception is the \<open>Inl\<close> branch of a sum.
\<close>

datatype error = TypeError | ValueError | IndexError | AttributeError

text \<open>
  The constructor arguments \<^verbatim>\<open>busnum\<close>, \<^verbatim>\<open>screenshot\<close> and \<^verbatim>\<open>rotate\<close> are dynamically typed
  (the defaults are \<^verbatim>\<open>None\<close>, \<^verbatim>\<open>False\<close>, \<^verbatim>\<open>False\<close>; a path or a number of degrees may be
  given instead), so they are kept as tagged values.
\<close>

datatype pyval = PyNone | PyBool bool | PyInt int | PyStr string

text \<open>\<^verbatim>\<open>isinstance(v, int)\<close>: in Python \<^verbatim>\<open>bool\<close> is a subclass of \<^verbatim>\<open>int\<close>.\<close>

fun isinstance_int :: "pyval \<Rightarrow> bool" where
  "isinstance_int (PyInt i) = True"
| "isinstance_int (PyBool b) = True"
| "isinstance_int PyNone = False"
| "isinstance_int (PyStr s) = False"

fun isinstance_str :: "pyval \<Rightarrow> bool" where
  "isinstance_str (PyStr s) = True"
| "isinstance_str v = False"

text \<open>Truth value of an object, as \<^verbatim>\<open>if v:\<close> tests it.\<close>

fun truthy :: "pyval \<Rightarrow> bool" where
  "truthy PyNone = False"
| "truthy (PyBool b) = b"
| "truthy (PyInt i) = (i \<noteq> 0)"
| "truthy (PyStr s) = (s \<noteq> [])"

text \<open>The integer an \<^verbatim>\<open>int\<close> instance stands for (\<^verbatim>\<open>False\<close> is 0, \<^verbatim>\<open>True\<close> is 1).\<close>

fun int_value :: "pyval \<Rightarrow> int" where
  "int_value (PyInt i) = i"
| "int_value (PyBool b) = (if b then 1 else 0)"
| "int_value v = 0"

text \<open>
  Subscripting \<^verbatim>\<open>v[i]\<close> with a non-negative index, where \<^verbatim>\<open>v\<close> is a list or \<^verbatim>\<open>None\<close>:
  \<^verbatim>\<open>None\<close> is not subscriptable (TypeError), an index past the end is an IndexError.
\<close>

fun subscript :: "'a list option \<Rightarrow> nat \<Rightarrow> error + 'a" where
  "subscript None i = Inl TypeError"
| "subscript (Some xs) i = (if i < length xs then Inr (xs ! i) else Inl IndexError)"

section \<open>The screen and its text layout\<close>

text \<open>
  The collaborator \<^verbatim>\<open>Utils\<close> (module \<^verbatim>\<open>bin/Utils.py\<close>) is not part of the module: a screen holds
  the answers it gives, the host name and the state of each home-automation entity.
\<close>

record utils =
  get_hostname :: string
  get_hassio_entity :: "string \<Rightarrow> string \<Rightarrow> string"

text \<open>
  The attributes of a \<^verbatim>\<open>BaseScreen\<close> instance.  \<open>class_name\<close> is
  \<^verbatim>\<open>self.__class__.__name__\<close>; \<open>text_indent\<close> is what the property of that name returns
  (0 in \<^verbatim>\<open>BaseScreen\<close>, a subclass may override it); \<open>text_lines\<close> is not set by
  \<^verbatim>\<open>__init__\<close>, so it is optional.
\<close>

record screen =
  class_name :: string
  text_indent :: int
  duration :: int
  utils :: utils
  font_size :: int
  text_lines :: "int option"

definition set_text_lines :: "int \<Rightarrow> screen \<Rightarrow> screen" where
  "set_text_lines num_lines scr =
     (let scr1 = scr\<lparr>text_lines := Some num_lines\<rparr>
      in if num_lines > 2
         then (if text_indent scr1 < 10 then scr1\<lparr>font_size := 10\<rparr>
               else scr1\<lparr>font_size := 9\<rparr>)
         else (if text_indent scr1 < 10 then scr1\<lparr>font_size := 14\<rparr>
               else scr1\<lparr>font_size := 13\<rparr>))"

text \<open>
  The property \<^verbatim>\<open>text_y\<close>: the table of vertical offsets for the current line count, or
  \<^verbatim>\<open>None\<close> from six lines on.  Reading it before any \<^verbatim>\<open>set_text_lines\<close> is an
  AttributeError.
\<close>

definition text_y :: "screen \<Rightarrow> error + int list option" where
  "text_y scr =
     (case text_lines scr of
        None \<Rightarrow> Inl AttributeError
      | Some n \<Rightarrow>
          if n = 1 then Inr (Some [0])
          else if n = 2 then Inr (Some [0, 18])
          else if n = 3 then Inr (Some [0, 11, 21])
          else if n < 6 then Inr (Some [0, 11, 21, 31, 41, 51])
          else Inr None)"

text \<open>
  The attributes of a freshly constructed screen of a given class
  (\<^verbatim>\<open>BaseScreen.__init__\<close>; \<^verbatim>\<open>config\<close> is stored and never read).
\<close>

definition BaseScreen_init :: "string \<Rightarrow> int \<Rightarrow> utils \<Rightarrow> screen" where
  "BaseScreen_init cls dur u =
     \<lparr>class_name = cls, text_indent = 0, duration = dur, utils = u,
      font_size = 8, text_lines = None\<rparr>"

section \<open>Strings\<close>

text \<open>
  \<^verbatim>\<open>str.lower\<close> on the ASCII letters (other characters are kept), \<^verbatim>\<open>str.rstrip('/')\<close>,
  and \<^verbatim>\<open>str.replace(old, new)\<close>: the occurrences of \<open>old\<close> are found from left to right
  without overlap, in one pass.  For an empty \<open>old\<close> Python inserts \<open>new\<close> before every
  character and at the end.
\<close>

definition lower_char :: "char \<Rightarrow> char" where
  "lower_char c =
     (case map_of (zip ''ABCDEFGHIJKLMNOPQRSTUVWXYZ'' ''abcdefghijklmnopqrstuvwxyz'') c of
        Some l \<Rightarrow> l
      | None \<Rightarrow> c)"

definition lower :: "string \<Rightarrow> string" where
  "lower s = map lower_char s"

definition rstrip_slash :: "string \<Rightarrow> string" where
  "rstrip_slash s = rev (dropWhile (\<lambda>c. c = CHR ''/'') (rev s))"

function str_replace :: "string \<Rightarrow> string \<Rightarrow> string \<Rightarrow> string" where
  "str_replace old new [] = (if old = [] then new else [])"
| "str_replace old new (c # cs) =
     (if old = [] then new @ c # str_replace old new cs
      else if prefix old (c # cs) then new @ str_replace old new (drop (length old) (c # cs))
      else c # str_replace old new cs)"
  by pat_completeness auto
termination
  by (relation "measure (\<lambda>(old, new, s). length s)") auto

text \<open>Decimal digits: \<^verbatim>\<open>str(n)\<close> for an integer, and a field of two digits.\<close>

definition digit :: "int \<Rightarrow> char" where
  "digit n = ''0123456789'' ! nat (n mod 10)"

function str_nat :: "int \<Rightarrow> string" where
  "str_nat n = (if n < 10 then [digit n] else str_nat (n div 10) @ [digit n])"
  by pat_completeness auto
termination
  by (relation "measure nat") auto

declare str_nat.simps [simp del]

definition str_int :: "int \<Rightarrow> string" where
  "str_int i = (if i < 0 then CHR ''-'' # str_nat (- i) else str_nat i)"

definition two_digits :: "int \<Rightarrow> string" where
  "two_digits n = [digit (n div 10), digit n]"

section \<open>The display\<close>

text \<open>
  The two driver classes imported from \<^verbatim>\<open>bin/SSD1306\<close>; the constructor picks one by name
  and falls back to the first.
\<close>

datatype driver = SSD1306_128_32 | SSD1309_128_64

text \<open>
  PIL objects live in a store and are referred to by address, since \<^verbatim>\<open>show\<close> replaces the
  canvas object and rebinds the draw context.  The bitmap of an image is kept as the
  sequence of drawing calls made on a blank image of its size; a font object is identified
  by its address among the objects the rasterizer has made.
\<close>

type_synonym addr = nat

datatype canvas_op =
    Rectangle "int \<times> int \<times> int \<times> int" int int
  | Text "int \<times> int" string addr int
  | Rotated int

record image_obj =
  im_size :: "int \<times> int"
  im_ops :: "canvas_op list"

text \<open>
  The calls a driver object receives: \<^verbatim>\<open>begin()\<close>, \<^verbatim>\<open>clear()\<close>, \<^verbatim>\<open>display()\<close> and
  \<^verbatim>\<open>image(bitmap)\<close> with the bitmap as it is at the call.
\<close>

datatype device_call = Begin | Clear | Show | SetImage image_obj

record device =
  dev_driver :: driver
  dev_busnum :: int
  dev_calls :: "device_call list"

record display =
  d_device :: device
  d_width :: int
  d_height :: int
  d_rotate :: pyval
  d_image :: addr
  d_draw :: addr
  d_screenshot :: pyval

text \<open>
  A timestamp as \<^verbatim>\<open>datetime.fromisoformat\<close> returns it: with a UTC offset (then it denotes
  an instant, in microseconds since the epoch) or without one.
\<close>

datatype datetime = Aware int | Naive int

text \<open>
  The process: the image store, the class-level font cache \<^verbatim>\<open>BaseScreen.fonts\<close>, the calls
  made to the rasterizer \<^verbatim>\<open>ImageFont.truetype\<close> (the font object a call returns has the
  call's position as its address), the files written, the pauses taken, the log, and what
  the environment supplies: \<^verbatim>\<open>Utils.current_dir\<close>, the system clock (its successive
  readings, in microseconds since the epoch) and the library's timestamp parser.
\<close>

record process =
  images :: "image_obj list"
  fonts :: "string \<rightharpoonup> addr"
  truetype_calls :: "(string \<times> int) list"
  saved :: "(string \<times> image_obj) list"
  slept :: "int list"
  logged :: "(string \<times> string) list"
  current_dir :: string
  clock :: "nat \<Rightarrow> int"
  ticks :: nat
  fromisoformat :: "string \<Rightarrow> error + datetime"

text \<open>The process together with the \<^verbatim>\<open>Display\<close> object the screens share.\<close>

record world = process +
  display :: display

definition DEFAULT_BUSNUM :: int where
  "DEFAULT_BUSNUM = 1"

definition SCREENSHOT_PATH :: string where
  "SCREENSHOT_PATH = ''./img/examples/''"

definition info :: "string \<Rightarrow> string \<Rightarrow> 'a process_scheme \<Rightarrow> 'a process_scheme" where
  "info logger msg p = p\<lparr>logged := logged p @ [(logger, msg)]\<rparr>"

text \<open>
  Besides setting the attributes (\<open>BaseScreen_init\<close>), the constructor of a screen writes
  one log entry.
\<close>

definition BaseScreen_init_log :: "screen \<Rightarrow> 'a process_scheme \<Rightarrow> 'a process_scheme" where
  "BaseScreen_init_log scr p =
     info ''Screen'' ([CHR 0x27] @ class_name scr @ [CHR 0x27] @ '' created'') p"

definition device_do :: "device_call \<Rightarrow> device \<Rightarrow> device" where
  "device_do c dv = dv\<lparr>dev_calls := dev_calls dv @ [c]\<rparr>"

text \<open>\<^verbatim>\<open>Display.clear\<close> on the device alone (the constructor calls it before the canvas exists).\<close>

definition clear_device :: "device \<Rightarrow> device" where
  "clear_device dv = device_do Show (device_do Clear (device_do Begin dv))"

definition select_driver :: "string \<Rightarrow> driver" where
  "select_driver name =
     (if name = ''SSD1306'' then SSD1306_128_32
      else if name = ''SSD1309'' then SSD1309_128_64
      else SSD1306_128_32)"

text \<open>
  \<^verbatim>\<open>Display.__init__\<close>.  The width and height are attributes of the driver classes, which
  are not in this module: \<open>geometry\<close> supplies them.
\<close>

definition Display_init ::
  "(driver \<Rightarrow> int \<times> int) \<Rightarrow> pyval \<Rightarrow> pyval \<Rightarrow> pyval \<Rightarrow> string \<Rightarrow> process \<Rightarrow> world" where
  "Display_init geometry busnum screenshot rot drv p =
     (let bus = (if isinstance_int busnum then int_value busnum else DEFAULT_BUSNUM);
          p1 = (if drv = ''SSD1306'' then info ''Display'' ''Creating a SSD1306 driver'' p
                else if drv = ''SSD1309'' then info ''Display'' ''Creating a SSD1309 driver'' p
                else p);
          dv = clear_device
                 \<lparr>dev_driver = select_driver drv, dev_busnum = bus, dev_calls = []\<rparr>;
          (w, h) = geometry (dev_driver dv);
          a = length (images p1)
      in process.extend (p1\<lparr>images := images p1 @ [\<lparr>im_size = (w, h), im_ops = []\<rparr>]\<rparr>)
           (world.fields
              \<lparr>d_device = dv, d_width = w, d_height = h, d_rotate = rot,
               d_image = a, d_draw = a, d_screenshot = screenshot\<rparr>))"

definition clear :: "world \<Rightarrow> world" where
  "clear w = w\<lparr>display := (display w)\<lparr>d_device := clear_device (d_device (display w))\<rparr>\<rparr>"

text \<open>A call on the draw context lands on the image the context is bound to.\<close>

definition draw_on :: "addr \<Rightarrow> canvas_op \<Rightarrow> world \<Rightarrow> world" where
  "draw_on a c w =
     w\<lparr>images := (images w)[a := (images w ! a)\<lparr>im_ops := im_ops (images w ! a) @ [c]\<rparr>]\<rparr>"

definition prepare :: "world \<Rightarrow> world" where
  "prepare w =
     draw_on (d_draw (display w))
       (Rectangle (0, 0, d_width (display w), d_height (display w)) 0 0) w"

text \<open>
  \<^verbatim>\<open>Image.rotate(angle)\<close> of PIL returns a new image object: a copy when the angle is a
  multiple of 360 degrees, the turned bitmap otherwise.
\<close>

definition Image_rotate :: "int \<Rightarrow> image_obj \<Rightarrow> image_obj" where
  "Image_rotate angle im =
     (if angle mod 360 = 0 then im else im\<lparr>im_ops := im_ops im @ [Rotated (angle mod 360)]\<rparr>)"

definition "show" :: "world \<Rightarrow> world" where
  "show w =
     (let d = display w;
          w1 = (if isinstance_int (d_rotate d)
                then (let a = length (images w)
                      in w\<lparr>images := images w @ [Image_rotate (int_value (d_rotate d)) (images w ! d_image d)],
                           display := d\<lparr>d_image := a, d_draw := a\<rparr>\<rparr>)
                else w);
          d1 = display w1;
          im = images w1 ! d_image d1
      in w1\<lparr>display := d1\<lparr>d_device := device_do Show (device_do (SetImage im) (d_device d1))\<rparr>\<rparr>)"

definition capture_screenshot :: "string \<Rightarrow> world \<Rightarrow> world" where
  "capture_screenshot nm w =
     (if truthy (d_screenshot (display w))
      then (let dir = (case d_screenshot (display w) of PyStr s \<Rightarrow> s | _ \<Rightarrow> SCREENSHOT_PATH);
                path = rstrip_slash dir @ ''/'' @ lower nm @ ''.png'';
                w1 = info ''Display'' (''saving screenshot to '' @ [CHR 0x27] @ path @ [CHR 0x27]) w
            in w1\<lparr>saved := saved w1 @ [(path, images w1 ! d_image (display w1))]\<rparr>)
      else w)"

section \<open>Time helpers\<close>

text \<open>
  The elapsed time is a Python \<^verbatim>\<open>float\<close>.  A finite binary64 number is kept here as a pair
  \<open>(m, e)\<close> of integers standing for \<open>m * 2 ^ e\<close>, and the operations the code uses are
  written with integer arithmetic and the rounding IEEE 754 prescribes (to nearest, ties
  to even, 53 significant bits): the true division of two integers, which
  \<^verbatim>\<open>timedelta.total_seconds\<close> performs on the microsecond count, the division of a float
  by an integer constant, the comparison with an integer constant, and the conversion
  \<^verbatim>\<open>f"{value:.2f}"\<close>, which rounds the exact value of the float to two decimals, again
  ties to even.  Exponent range and subnormal numbers play no part: the differences of
  two \<^verbatim>\<open>datetime\<close> values lie between a microsecond and ten thousand years.
\<close>

type_synonym double = "int \<times> int"

function bit_length :: "int \<Rightarrow> int" where
  "bit_length n = (if n \<le> 0 then 0 else 1 + bit_length (n div 2))"
  by pat_completeness auto
termination
  by (relation "measure nat") auto

declare bit_length.simps [simp del]

text \<open>The integer nearest to \<open>n / d\<close> for \<open>d > 0\<close>, ties to even.\<close>

definition round_half_even :: "int \<Rightarrow> int \<Rightarrow> int" where
  "round_half_even n d =
     (let q = n div d; r = n mod d
      in if 2 * r < d then q
         else if 2 * r > d then q + 1
         else if even q then q else q + 1)"

text \<open>
  The float nearest to \<open>n / d\<close> for \<open>d > 0\<close>: \<open>e\<close> is the exponent with
  \<open>2 ^ e \<le> |n| / d < 2 ^ (e + 1)\<close>, and the quotient is rounded to a multiple of
  \<open>2 ^ (e - 52)\<close>.
\<close>

definition round_ratio :: "int \<Rightarrow> int \<Rightarrow> double" where
  "round_ratio n d =
     (if n = 0 then (0, 0)
      else (let a = \<bar>n\<bar>;
                g = bit_length a - bit_length d;
                e = (if (if g \<ge> 0 then d * 2 ^ nat g \<le> a else d \<le> a * 2 ^ nat (- g))
                     then g else g - 1);
                s = e - 52;
                m = (if s \<ge> 0 then round_half_even a (d * 2 ^ nat s)
                     else round_half_even (a * 2 ^ nat (- s)) d)
            in (sgn n * m, s)))"

fun float_div :: "double \<Rightarrow> int \<Rightarrow> double" where
  "float_div (m, e) c =
     (if e \<ge> 0 then round_ratio (m * 2 ^ nat e) c else round_ratio m (c * 2 ^ nat (- e)))"

fun float_less :: "double \<Rightarrow> int \<Rightarrow> bool" where
  "float_less (m, e) k = (if e \<ge> 0 then m * 2 ^ nat e < k else m < k * 2 ^ nat (- e))"

fun format_2f :: "double \<Rightarrow> string" where
  "format_2f (m, e) =
     (let a = \<bar>m\<bar>;
          c = (if e \<ge> 0 then a * 2 ^ nat e * 100
               else round_half_even (a * 100) (2 ^ nat (- e)))
      in (if m < 0 then ''-'' else []) @ str_nat (c div 100) @ ''.'' @ two_digits (c mod 100))"

text \<open>\<^verbatim>\<open>timedelta.total_seconds()\<close> of a difference given in microseconds.\<close>

definition total_seconds :: "int \<Rightarrow> double" where
  "total_seconds us = round_ratio us 1000000"

text \<open>\<^verbatim>\<open>datetime.datetime.now(datetime.timezone.utc)\<close>: the next reading of the clock.\<close>

definition utc_now :: "world \<Rightarrow> int \<times> world" where
  "utc_now w = (clock w (ticks w), w\<lparr>ticks := Suc (ticks w)\<rparr>)"

definition strftime_HMS :: "int \<Rightarrow> string" where
  "strftime_HMS us =
     (let sod = (us div 1000000) mod 86400
      in two_digits (sod div 3600) @ '':'' @ two_digits ((sod div 60) mod 60) @ '':''
         @ two_digits (sod mod 60))"

definition human_readable_time_now :: "world \<Rightarrow> string \<times> world" where
  "human_readable_time_now w =
     (let (now, w1) = utc_now w in (''T['' @ strftime_HMS now @ '']'', w1))"

definition human_readable_time_since :: "string \<Rightarrow> world \<Rightarrow> (error + string) \<times> world" where
  "human_readable_time_since date_string w =
     (case fromisoformat w date_string of
        Inl err \<Rightarrow> (Inl err, w)
      | Inr past_date \<Rightarrow>
          (let (now, w1) = utc_now w
           in case past_date of
                Naive t \<Rightarrow> (Inl TypeError, w1)
              | Aware t \<Rightarrow>
                  (let secs = total_seconds (now - t);
                       (val, unit) =
                         (if float_less secs 3600 then (float_div secs 60, ''m'')
                          else if float_less secs 86400 then (float_div secs 3600, ''h'')
                          else (float_div secs 86400, ''d''))
                   in (Inr (format_2f val @ unit @ '' ago''), w1))))"

section \<open>Screen operations\<close>

definition name :: "screen \<Rightarrow> string" where
  "name scr = str_replace ''screen'' [] (lower (class_name scr))"

text \<open>\<^verbatim>\<open>BaseScreen.capture_screenshot(name = None)\<close>: an absent or empty name is the screen's.\<close>

definition screen_capture_screenshot :: "string option \<Rightarrow> screen \<Rightarrow> world \<Rightarrow> world" where
  "screen_capture_screenshot nm scr w =
     (case nm of
        None \<Rightarrow> capture_screenshot (name scr) w
      | Some n \<Rightarrow> capture_screenshot (if n = [] then name scr else n) w)"

definition font_path :: "world \<Rightarrow> string" where
  "font_path w = current_dir w @ ''/fonts/DejaVuSans.ttf''"

definition font_bold_path :: "world \<Rightarrow> string" where
  "font_bold_path w = current_dir w @ ''/fonts/DejaVuSans-Bold.ttf''"

text \<open>
  The size a call of \<^verbatim>\<open>font\<close> works with (an absent or zero \<open>size\<close> is the screen's current
  \<open>font_size\<close>) and the cache key \<^verbatim>\<open>'font_{}{}'.format(str(size), suffix)\<close>, where the suffix
  is \<^verbatim>\<open>None\<close> for a regular font.
\<close>

definition font_size_arg :: "int option \<Rightarrow> screen \<Rightarrow> int" where
  "font_size_arg sz scr =
     (case sz of None \<Rightarrow> font_size scr | Some n \<Rightarrow> if n = 0 then font_size scr else n)"

definition font_key :: "int \<Rightarrow> bool \<Rightarrow> string" where
  "font_key sz is_bold = ''font_'' @ str_int sz @ (if is_bold then ''_bold'' else ''None'')"

text \<open>
  \<^verbatim>\<open>BaseScreen.font\<close>.  The rasterizer is taken to succeed (the two font files ship with
  the program).
\<close>

definition font :: "int option \<Rightarrow> bool \<Rightarrow> screen \<Rightarrow> world \<Rightarrow> addr \<times> world" where
  "font size_arg is_bold scr w =
     (let sz = font_size_arg size_arg scr;
          key = font_key sz is_bold
      in case fonts w key of
           Some f \<Rightarrow> (f, w)
         | None \<Rightarrow>
             (let path = (if is_bold then font_bold_path w else font_path w);
                  f = length (truetype_calls w)
              in (f, w\<lparr>truetype_calls := truetype_calls w @ [(path, sz)],
                       fonts := (fonts w)(key \<mapsto> f)\<rparr>)))"

text \<open>
  The loop of \<^verbatim>\<open>display_text\<close>, with the counter \<open>line\<close>.  \<^verbatim>\<open>self.text_y[line]\<close> is
  evaluated for each line before it is drawn.
\<close>

fun draw_lines :: "screen \<Rightarrow> addr \<Rightarrow> nat \<Rightarrow> string list \<Rightarrow> world \<Rightarrow> (error + unit) \<times> world" where
  "draw_lines scr f line [] w = (Inr (), w)"
| "draw_lines scr f line (text # rest) w =
     (case text_y scr of
        Inl err \<Rightarrow> (Inl err, w)
      | Inr table \<Rightarrow>
          (case subscript table line of
             Inl err \<Rightarrow> (Inl err, w)
           | Inr y \<Rightarrow>
               (let w1 = draw_on (d_draw (display w)) (Text (text_indent scr, y) text f 255) w
                in if line + 1 \<ge> 6 then (Inr (), w1)
                   else draw_lines scr f (line + 1) rest w1)))"

definition display_text ::
  "string list \<Rightarrow> screen \<Rightarrow> world \<Rightarrow> (error + unit) \<times> screen \<times> world" where
  "display_text lines scr w =
     (if lines = [] then (Inr (), scr, w)
      else (let scr1 = set_text_lines (int (length lines)) scr;
                (f, w1) = font None False scr1 w;
                (r, w2) = draw_lines scr1 f 0 lines w1
            in (r, scr1, w2)))"

text \<open>\<^verbatim>\<open>time.sleep\<close> refuses a negative length.\<close>

definition sleep :: "int \<Rightarrow> world \<Rightarrow> (error + unit) \<times> world" where
  "sleep secs w =
     (if secs < 0 then (Inl ValueError, w) else (Inr (), w\<lparr>slept := slept w @ [secs]\<rparr>))"

definition render_with_defaults :: "screen \<Rightarrow> world \<Rightarrow> (error + unit) \<times> world" where
  "render_with_defaults scr w =
     sleep (duration scr) (show (screen_capture_screenshot None scr w))"

definition BaseScreen_render :: "screen \<Rightarrow> world \<Rightarrow> (error + unit) \<times> screen \<times> world" where
  "BaseScreen_render scr w = (Inr (), scr, show w)"

definition ExitScreen_render :: "screen \<Rightarrow> world \<Rightarrow> (error + unit) \<times> screen \<times> world" where
  "ExitScreen_render scr w =
     (case display_text [''GOOD BYE''] scr w of
        (Inl err, scr1, w1) \<Rightarrow> (Inl err, scr1, w1)
      | (Inr u, scr1, w1) \<Rightarrow> (let (r, w2) = render_with_defaults scr1 w1 in (r, scr1, w2)))"

text \<open>
  \<^verbatim>\<open>StatusScreen.render\<close>.  The entity states are interpolated as the collaborator returns
  them; the degree sign is the character U+00B0.  \<open>hostname_line\<close> is computed as in the
  source, which then passes \<open>hostname\<close> on.
\<close>

definition StatusScreen_render :: "screen \<Rightarrow> world \<Rightarrow> (error + unit) \<times> screen \<times> world" where
  "StatusScreen_render scr w =
     (let hostname = get_hostname (utils scr);
          (current_time, w1) = human_readable_time_now w;
          hostname_line = hostname @ '' T='' @ current_time @ '' +'' @ current_time;
          mem = get_hassio_entity (utils scr) ''sensor.system_monitor_memory_usage'' ''state'';
          cpu = get_hassio_entity (utils scr) ''sensor.system_monitor_processor_use'' ''state'';
          disk = get_hassio_entity (utils scr) ''sensor.system_monitor_disk_usage'' ''state'';
          temp = get_hassio_entity (utils scr) ''sensor.system_monitor_processor_temperature'' ''state'';
          resource_line = ''C'' @ cpu @ ''% M'' @ mem @ ''% D'' @ disk @ ''% t'' @ temp @ [CHR 0xB0] @ ''C'';
          ip_eth = get_hassio_entity (utils scr) ''sensor.system_monitor_ipv4_address_end0'' ''state'';
          ip_wlan = get_hassio_entity (utils scr) ''sensor.system_monitor_ipv4_address_wlan0'' ''state'';
          ip_line = ''A '' @ ip_eth @ '' '' @ ip_wlan;
          ping_status = get_hassio_entity (utils scr) ''binary_sensor.8_8_8_8'' ''state'';
          ping_latency = get_hassio_entity (utils scr) ''sensor.8_8_8_8_round_trip_time_average'' ''state'';
          ping_line = (if ping_status = ''on'' then ping_latency else ''XXX'');
          download_speed = get_hassio_entity (utils scr) ''sensor.wan_download_speed_mbps'' ''state'';
          upload_speed = get_hassio_entity (utils scr) ''sensor.wan_upload_speed_mbps'' ''state'';
          wan = ''P'' @ ping_line @ '' U'' @ upload_speed @ '' D'' @ download_speed;
          last_boot = get_hassio_entity (utils scr) ''sensor.system_monitor_last_boot'' ''state''
      in case human_readable_time_since last_boot w1 of
           (Inl err, w2) \<Rightarrow> (Inl err, scr, w2)
         | (Inr boot_since, w2) \<Rightarrow>
             (let boot = ''B '' @ boot_since;
                  w3 = info ''Screen'' boot (info ''Screen'' wan (info ''Screen'' resource_line
                         (info ''Screen'' ip_line (info ''Screen'' hostname w2))))
              in case display_text [hostname, resource_line, ip_line, wan, boot] scr w3 of
                   (Inl err, scr1, w4) \<Rightarrow> (Inl err, scr1, w4)
                 | (Inr u, scr1, w4) \<Rightarrow>
                     (let (r, w5) = render_with_defaults scr1 w4 in (r, scr1, w5))))"

text \<open>
  \<^verbatim>\<open>self.render()\<close> is resolved by the class of the screen; a class that does not define
  \<^verbatim>\<open>render\<close> inherits the one of \<^verbatim>\<open>BaseScreen\<close>.
\<close>

definition render :: "screen \<Rightarrow> world \<Rightarrow> (error + unit) \<times> screen \<times> world" where
  "render scr w =
     (if class_name scr = ''ExitScreen'' then ExitScreen_render scr w
      else if class_name scr = ''StatusScreen'' then StatusScreen_render scr w
      else BaseScreen_render scr w)"

definition run :: "screen \<Rightarrow> world \<Rightarrow> (error + unit) \<times> screen \<times> world" where
  "run scr w = render scr (prepare w)"

text \<open>
  A process at its start, for the examples: nothing allocated, nothing cached, a clock that
  reads a fixed instant (2025-01-01 01:30:00 UTC), and a parser that knows one timestamp.
\<close>

definition process0 :: process where
  "process0 =
     \<lparr>images = [], fonts = Map.empty, truetype_calls = [], saved = [], slept = [],
      logged = [], current_dir = ''/opt/oled'',
      clock = (\<lambda>k. 1735695000000000), ticks = 0,
      fromisoformat = (\<lambda>s. if s = ''2025-01-01T00:00:00+00:00'' then Inr (Aware 1735689600000000)
                            else Inl ValueError)\<rparr>"

definition geometry0 :: "driver \<Rightarrow> int \<times> int" where
  "geometry0 d = (case d of SSD1306_128_32 \<Rightarrow> (128, 32) | SSD1309_128_64 \<Rightarrow> (128, 64))"

definition utils0 :: utils where
  "utils0 =
     \<lparr>get_hostname = ''pi'',
      get_hassio_entity =
        (\<lambda>entity field.
           if entity = ''sensor.system_monitor_last_boot'' then ''2025-01-01T00:00:00+00:00''
           else if entity = ''binary_sensor.8_8_8_8'' then ''on''
           else ''7'')\<rparr>"

text \<open>The display as \<^verbatim>\<open>Display()\<close> constructs it, every argument at its default.\<close>

definition world0 :: world where
  "world0 = Display_init geometry0 PyNone (PyBool False) (PyBool False) ''SSD1306'' process0"

text \<open>The same display with screenshots switched on.\<close>

definition world1 :: world where
  "world1 = Display_init geometry0 PyNone (PyBool True) (PyBool False) ''SSD1306'' process0"

section \<open>The worlds a run goes through\<close>

text \<open>
  Every operation of the module changes the world by a sequence of the following steps: a
  log entry, a device reset, a call on the draw context, a flip, a screenshot, a font
  lookup, a reading of the clock, a pause.  \<open>reachable w0 w\<close> says that \<open>w\<close> comes from \<open>w0\<close>
  by such steps.
\<close>

inductive reachable :: "world \<Rightarrow> world \<Rightarrow> bool" for w0 :: world where
  r_start: "reachable w0 w0"
| r_info: "reachable w0 w \<Longrightarrow> reachable w0 (info logger msg w)"
| r_clear: "reachable w0 w \<Longrightarrow> reachable w0 (clear w)"
| r_draw: "reachable w0 w \<Longrightarrow> reachable w0 (draw_on (d_draw (display w)) c w)"
| r_show: "reachable w0 w \<Longrightarrow> reachable w0 (show w)"
| r_capture: "reachable w0 w \<Longrightarrow> reachable w0 (capture_screenshot nm w)"
| r_font: "reachable w0 w \<Longrightarrow> reachable w0 (snd (font sz is_bold scr w))"
| r_now: "reachable w0 w \<Longrightarrow> reachable w0 (snd (utc_now w))"
| r_sleep: "reachable w0 w \<Longrightarrow> reachable w0 (snd (sleep secs w))"

section \<open>The documented name of a screen\<close>

text \<open>
  The name as the documentation words it: the class name in lower case, with a trailing
  \<^verbatim>\<open>screen\<close> removed.
\<close>

definition strip_suffix_screen :: "string \<Rightarrow> string" where
  "strip_suffix_screen s = (if suffix ''screen'' s then take (length s - 6) s else s)"

definition documented_name :: "screen \<Rightarrow> string" where
  "documented_name scr = strip_suffix_screen (lower (class_name scr))"

section \<open>Layout tables\<close>




text \<open>
  C4.  For a line count from 1 to 5 and an indent among 0, 9, 10, 20, \<open>set_text_lines\<close>
  records the count and sets the font size by the table: 10 (more than two lines, indent
  below 10), 9 (more than two lines, indent from 10), 14 (at most two lines, indent below
  10), 13 (at most two lines, indent from 10).
\<close>

theorem set_text_lines_font_size:
  assumes "n \<in> {1, 2, 3, 4, 5}" and "text_indent scr \<in> {0, 9, 10, 20}"
  shows "text_lines (set_text_lines n scr) = Some n
         \<and> font_size (set_text_lines n scr) =
             (if n > 2 \<and> text_indent scr < 10 then 10
              else if n > 2 \<and> text_indent scr \<ge> 10 then 9
              else if n \<le> 2 \<and> text_indent scr < 10 then 14
              else 13)"
  using assms by (auto simp: set_text_lines_def Let_def)

theorem set_text_lines_font_size_witness:
  "(3::int) \<in> {1, 2, 3, 4, 5}
   \<and> text_indent ((BaseScreen_init ''StatusScreen'' 5 \<lparr>get_hostname = ''pi'', get_hassio_entity = (\<lambda>e f. ''1'')\<rparr>)\<lparr>text_indent := 10\<rparr>) \<in> {0, 9, 10, 20}
   \<and> font_size (set_text_lines 3 ((BaseScreen_init ''StatusScreen'' 5 \<lparr>get_hostname = ''pi'', get_hassio_entity = (\<lambda>e f. ''1'')\<rparr>)\<lparr>text_indent := 10\<rparr>)) = 9"
  using set_text_lines_font_size [of 3 "(BaseScreen_init ''StatusScreen'' 5 \<lparr>get_hostname = ''pi'', get_hassio_entity = (\<lambda>e f. ''1'')\<rparr>)\<lparr>text_indent := 10\<rparr>"]
  by (simp add: BaseScreen_init_def)

section \<open>Compound operations stay within the reachable worlds\<close>


lemma reachable_prepare: "reachable w0 w \<Longrightarrow> reachable w0 (prepare w)"
  unfolding prepare_def by (rule reachable.r_draw)

lemma reachable_draw_lines:
  "reachable w0 w \<Longrightarrow> reachable w0 (snd (draw_lines scr f k ls w))"
proof (induction ls arbitrary: k w)
  case Nil
  then show ?case by simp
next
  case (Cons t rest)
  show ?case
  proof (cases "text_y scr")
    case (Inl err)
    with Cons.prems show ?thesis by simp
  next
    case (Inr table)
    show ?thesis
    proof (cases "subscript table k")
      case (Inl err)
      with Inr Cons.prems show ?thesis by simp
    next
      case y: (Inr y)
      have r1: "reachable w0 (draw_on (d_draw (display w)) (Text (text_indent scr, y) t f 255) w)"
        using Cons.prems by (rule reachable.r_draw)
      show ?thesis
        using Inr y r1 Cons.IH [OF r1, of "k + 1"] by (simp add: Let_def)
    qed
  qed
qed

lemma reachable_display_text:
  assumes "reachable w0 w"
  shows "reachable w0 (snd (snd (display_text lines scr w)))"
proof (cases "lines = []")
  case True
  with assms show ?thesis by (simp add: display_text_def)
next
  case False
  have r1: "reachable w0 (snd (font None False (set_text_lines (int (length lines)) scr) w))"
    using assms by (rule reachable.r_font)
  show ?thesis
    using False reachable_draw_lines [OF r1]
    by (simp add: display_text_def Let_def split: prod.splits) (metis snd_conv)
qed

lemma reachable_render_with_defaults:
  assumes "reachable w0 w"
  shows "reachable w0 (snd (render_with_defaults scr w))"
  unfolding render_with_defaults_def screen_capture_screenshot_def
  by (simp add: assms reachable.r_sleep reachable.r_show reachable.r_capture)

lemma reachable_time_now:
  "reachable w0 w \<Longrightarrow> reachable w0 (snd (human_readable_time_now w))"
  unfolding human_readable_time_now_def
  by (simp add: split_def Let_def reachable.r_now)

lemma reachable_time_since:
  "reachable w0 w \<Longrightarrow> reachable w0 (snd (human_readable_time_since s w))"
  unfolding human_readable_time_since_def
  by (auto simp: split_def Let_def reachable.r_now split: sum.splits datetime.splits)

lemma reachable_ExitScreen_render:
  assumes "reachable w0 w"
  shows "reachable w0 (snd (snd (ExitScreen_render scr w)))"
proof -
  obtain r scr1 w1 where dt: "display_text [''GOOD BYE''] scr w = (r, scr1, w1)"
    by (metis prod_cases3)
  have r1: "reachable w0 w1"
    using reachable_display_text [OF assms, of "[''GOOD BYE'']" scr] dt by simp
  show ?thesis
    using dt r1 reachable_render_with_defaults [OF r1, of scr1]
    by (cases r) (simp_all add: ExitScreen_render_def split_def Let_def)
qed


lemma reachable_text_then_flip:
  assumes "reachable w0 w"
  shows "reachable w0 (snd (snd (case display_text ls scr w of
            (Inl err, scr1, w1) \<Rightarrow> (Inl err, scr1, w1)
          | (Inr u, scr1, w1) \<Rightarrow> (let (r, w2) = render_with_defaults scr1 w1 in (r, scr1, w2)))))"
proof -
  obtain r scr1 w1 where dt: "display_text ls scr w = (r, scr1, w1)"
    by (metis prod_cases3)
  have r1: "reachable w0 w1"
    using reachable_display_text [OF assms, of ls scr] dt by simp
  show ?thesis
    using dt r1 reachable_render_with_defaults [OF r1, of scr1]
    by (cases r) (simp_all add: split_def Let_def)
qed

lemma reachable_StatusScreen_render:
  assumes "reachable w0 w"
  shows "reachable w0 (snd (snd (StatusScreen_render scr w)))"
proof -
  obtain ct w1 where tn: "human_readable_time_now w = (ct, w1)"
    by (metis surj_pair)
  have r1: "reachable w0 w1"
    using reachable_time_now [OF assms] tn by simp
  let ?lb = "get_hassio_entity (utils scr) ''sensor.system_monitor_last_boot'' ''state''"
  obtain rs w2 where ts: "human_readable_time_since ?lb w1 = (rs, w2)"
    by (metis surj_pair)
  have r2: "reachable w0 w2"
    using reachable_time_since [OF r1, of ?lb] ts by simp
  show ?thesis
  proof (cases rs)
    case (Inl err)
    show ?thesis
      unfolding StatusScreen_render_def Let_def
      by (simp only: tn ts Inl prod.case sum.case snd_conv r2)
  next
    case (Inr boot_since)
    have r3: "reachable w0 (info l5 m5 (info l4 m4 (info l3 m3 (info l2 m2 (info l1 m1 w2)))))"
      for l1 m1 l2 m2 l3 m3 l4 m4 l5 m5
      by (intro reachable.r_info r2)
    show ?thesis
      unfolding StatusScreen_render_def Let_def
      apply (simp only: tn ts Inr prod.case sum.case)
      apply (rule reachable_text_then_flip [OF r3, unfolded Let_def])
      done
  qed
qed

lemma reachable_render:
  "reachable w0 w \<Longrightarrow> reachable w0 (snd (snd (render scr w)))"
  by (simp add: render_def BaseScreen_render_def reachable_ExitScreen_render
      reachable_StatusScreen_render reachable.r_show)

lemma reachable_run:
  "reachable w0 w \<Longrightarrow> reachable w0 (snd (snd (run scr w)))"
  by (simp add: run_def reachable_render reachable_prepare)

section \<open>What the steps preserve\<close>

lemma reachable_rotate:
  "reachable w0 w \<Longrightarrow> d_rotate (display w) = d_rotate (display w0)"
  by (induction rule: reachable.induct)
     (auto simp: info_def clear_def draw_on_def show_def capture_screenshot_def font_def
        utc_now_def sleep_def Let_def split: option.splits)

lemma reachable_canvas_valid:
  "reachable w0 w \<Longrightarrow> d_image (display w0) < length (images w0)
     \<Longrightarrow> d_image (display w) < length (images w)"
  by (induction rule: reachable.induct)
     (auto simp: info_def clear_def draw_on_def show_def capture_screenshot_def font_def
        utc_now_def sleep_def Let_def split: option.splits)

lemma reachable_draw_bound:
  "reachable w0 w \<Longrightarrow> d_draw (display w0) = d_image (display w0)
     \<Longrightarrow> d_draw (display w) = d_image (display w)"
  by (induction rule: reachable.induct)
     (auto simp: info_def clear_def draw_on_def show_def capture_screenshot_def font_def
        utc_now_def sleep_def Let_def split: option.splits)

lemma Display_init_fields:
  "d_rotate (display (Display_init g busnum shot rot drv p)) = rot"
  "d_image (display (Display_init g busnum shot rot drv p)) = length (images p)"
  "d_draw (display (Display_init g busnum shot rot drv p)) = length (images p)"
  "length (images (Display_init g busnum shot rot drv p)) = Suc (length (images p))"
  by (simp_all add: Display_init_def Let_def info_def process.extend_def world.fields_def
      split: prod.splits)

section \<open>The display: driver selection and the flip\<close>

text \<open>
  C6.  A display constructed with a driver name other than \<^verbatim>\<open>SSD1306\<close> and \<^verbatim>\<open>SSD1309\<close> gets
  a device of the same driver class as one constructed with the name \<^verbatim>\<open>SSD1306\<close>, and no
  error is raised; the whole \<^verbatim>\<open>Display\<close> object is the same, only the log entry is absent.
\<close>

theorem unknown_driver_falls_back:
  assumes "drv \<notin> {''SSD1306'', ''SSD1309''}"
  shows "dev_driver (d_device (display (Display_init g busnum shot rot drv p)))
           = dev_driver (d_device (display (Display_init g busnum shot rot ''SSD1306'' p)))
         \<and> display (Display_init g busnum shot rot drv p)
           = display (Display_init g busnum shot rot ''SSD1306'' p)"
  using assms
  by (simp add: Display_init_def select_driver_def Let_def info_def process.extend_def
      world.fields_def split: prod.splits)

theorem unknown_driver_falls_back_witness:
  "''SH1106'' \<notin> {''SSD1306'', ''SSD1309''}
   \<and> dev_driver (d_device (display (Display_init geometry0 PyNone (PyBool False) (PyBool False) ''SH1106'' process0)))
       = SSD1306_128_32
   \<and> dev_driver (d_device (display (Display_init geometry0 PyNone (PyBool False) (PyBool False) ''SSD1306'' process0)))
       = SSD1306_128_32"
  using unknown_driver_falls_back [of "''SH1106''" geometry0 PyNone "PyBool False" "PyBool False" process0]
  by (simp add: Display_init_def select_driver_def Let_def info_def process.extend_def
      world.fields_def geometry0_def process0_def clear_device_def device_do_def
      split: prod.splits)

text \<open>
  C10.  A display constructed with \<^verbatim>\<open>rotate = False\<close> keeps that value in every world a run
  reaches, and there \<^verbatim>\<open>show\<close> takes the rotation branch: \<^verbatim>\<open>False\<close> passes the integer test
  and stands for 0 degrees, the canvas becomes a newly allocated image with the bitmap of
  the old one, and the draw context is bound to the new image.
\<close>

theorem show_rotates_by_default:
  assumes "reachable (Display_init g busnum shot (PyBool False) drv p) w"
  shows "isinstance_int (d_rotate (display w))
         \<and> int_value (d_rotate (display w)) = 0
         \<and> d_image (display (show w)) = length (images w)
         \<and> d_image (display (show w)) \<noteq> d_image (display w)
         \<and> images (show w) = images w @ [images w ! d_image (display w)]
         \<and> d_draw (display (show w)) = d_image (display (show w))"
proof -
  have rot: "d_rotate (display w) = PyBool False"
    using reachable_rotate [OF assms] by (simp add: Display_init_fields)
  have valid: "d_image (display w) < length (images w)"
    using reachable_canvas_valid [OF assms] by (simp add: Display_init_fields)
  show ?thesis
    using rot valid by (simp add: show_def Let_def Image_rotate_def)
qed

theorem show_rotates_by_default_witness:
  "reachable world0 (prepare world0)
   \<and> d_image (display (show (prepare world0))) = length (images (prepare world0))
   \<and> d_image (display (show (prepare world0))) \<noteq> d_image (display (prepare world0))
   \<and> d_draw (display (show (prepare world0))) = d_image (display (show (prepare world0)))"
proof -
  have r: "reachable (Display_init geometry0 PyNone (PyBool False) (PyBool False) ''SSD1306'' process0) (prepare world0)"
    unfolding world0_def by (intro reachable_prepare reachable.r_start)
  show ?thesis
    using r show_rotates_by_default [OF r] by (simp add: world0_def)
qed
section \<open>Drawing text\<close>

text \<open>
  C7.  \<open>display_text\<close> on an empty sequence returns at once: the screen (its \<open>font_size\<close>
  included) and the world (the canvas and every other object) are as before.
\<close>

theorem display_text_empty:
  "display_text [] scr w = (Inr (), scr, w)"
  by (simp add: display_text_def)

text \<open>From six lines on there is no table of offsets, and the first subscript fails.\<close>

lemma text_y_six_or_more:
  "6 \<le> n \<Longrightarrow> text_y (set_text_lines n scr) = Inr None"
  by (simp add: text_y_def set_text_lines_def Let_def)

lemma font_images: "images (snd (font sz is_bold scr w)) = images w"
  by (simp add: font_def Let_def split: option.splits)

lemma display_text_six_or_more:
  assumes "6 \<le> length ls"
  shows "fst (display_text ls scr w) = Inl TypeError
         \<and> images (snd (snd (display_text ls scr w))) = images w"
proof -
  obtain t rest where ls: "ls = t # rest"
    using assms by (cases ls) auto
  have ty: "text_y (set_text_lines (int (length ls)) scr) = Inr None"
    using assms by (intro text_y_six_or_more) simp
  show ?thesis
    using ty font_images [of None False "set_text_lines (int (length ls)) scr" w]
    by (simp add: display_text_def Let_def split_def ls)
qed

lemma draw_on_fields:
  "display (draw_on a c w) = display w"
  "length (images (draw_on a c w)) = length (images w)"
  by (simp_all add: draw_on_def)

lemma draw_on_canvas:
  "a < length (images w) \<Longrightarrow> im_ops (images (draw_on a c w) ! a) = im_ops (images w ! a) @ [c]"
  by (simp add: draw_on_def)

text \<open>
  While the table has an offset for every line and fewer than six lines have been drawn
  when the list ends, the loop draws every line, one call each, and raises nothing.
\<close>

lemma draw_lines_all:
  assumes "text_y scr = Inr (Some table)"
    and "k + length ls \<le> length table" and "k + length ls \<le> 5"
    and "d_draw (display w) < length (images w)"
  shows "fst (draw_lines scr f k ls w) = Inr ()
         \<and> display (snd (draw_lines scr f k ls w)) = display w
         \<and> length (images (snd (draw_lines scr f k ls w))) = length (images w)
         \<and> im_ops (images (snd (draw_lines scr f k ls w)) ! d_draw (display w))
             = im_ops (images w ! d_draw (display w))
               @ map (\<lambda>(i, t). Text (text_indent scr, table ! i) t f 255) (zip [k..<k + length ls] ls)"
  using assms(2-)
proof (induction ls arbitrary: k w)
  case Nil
  show ?case by simp
next
  case (Cons t rest)
  let ?a = "d_draw (display w)"
  let ?c = "Text (text_indent scr, table ! k) t f 255"
  let ?w1 = "draw_on ?a ?c w"
  have k: "k < length table"
    using Cons.prems(1) by simp
  have step: "draw_lines scr f k (t # rest) w = draw_lines scr f (Suc k) rest ?w1"
    using assms(1) k Cons.prems(2) by (simp add: Let_def)
  have ih: "fst (draw_lines scr f (Suc k) rest ?w1) = Inr ()
         \<and> display (snd (draw_lines scr f (Suc k) rest ?w1)) = display ?w1
         \<and> length (images (snd (draw_lines scr f (Suc k) rest ?w1))) = length (images ?w1)
         \<and> im_ops (images (snd (draw_lines scr f (Suc k) rest ?w1)) ! d_draw (display ?w1))
             = im_ops (images ?w1 ! d_draw (display ?w1))
               @ map (\<lambda>(i, t). Text (text_indent scr, table ! i) t f 255)
                   (zip [Suc k..<Suc k + length rest] rest)"
    using Cons.prems by (intro Cons.IH) (simp_all add: draw_on_fields)
  have e: "k + length (t # rest) = Suc k + length rest"
    by simp
  have upt: "[k..<Suc k + length rest] = k # [Suc k..<Suc k + length rest]"
    by (rule upt_conv_Cons) simp
  show ?case
    using ih Cons.prems(3)
    by (simp only: step e upt) (simp add: draw_on_fields draw_on_canvas)
qed

lemma text_y_up_to_five:
  assumes "1 \<le> n" and "n \<le> 5"
  shows "\<exists>table. text_y (set_text_lines n scr) = Inr (Some table) \<and> nat n \<le> length table"
  using assms by (auto simp: text_y_def set_text_lines_def Let_def)

lemma font_frame:
  "display (snd (font sz is_bold scr w)) = display w"
  "images (snd (font sz is_bold scr w)) = images w"
  by (simp_all add: font_def Let_def split: option.splits)

lemma display_text_up_to_five:
  assumes "ls \<noteq> []" and "length ls \<le> 5"
    and "d_draw (display w) < length (images w)"
  shows "\<exists>table. text_y (set_text_lines (int (length ls)) scr) = Inr (Some table)
         \<and> fst (display_text ls scr w) = Inr ()
         \<and> im_ops (images (snd (snd (display_text ls scr w))) ! d_draw (display w))
             = im_ops (images w ! d_draw (display w))
               @ map (\<lambda>(i, t). Text (text_indent scr, table ! i) t
                                  (fst (font None False (set_text_lines (int (length ls)) scr) w)) 255)
                   (zip [0..<length ls] ls)"
proof -
  let ?scr1 = "set_text_lines (int (length ls)) scr"
  let ?fw = "font None False ?scr1 w"
  obtain table where ty: "text_y ?scr1 = Inr (Some table)" and len: "length ls \<le> length table"
    using text_y_up_to_five [of "int (length ls)" scr] assms(1,2)
    by (cases ls) auto
  have ind: "text_indent ?scr1 = text_indent scr"
    by (simp add: set_text_lines_def Let_def)
  have "fst (draw_lines ?scr1 (fst ?fw) 0 ls (snd ?fw)) = Inr ()
         \<and> display (snd (draw_lines ?scr1 (fst ?fw) 0 ls (snd ?fw))) = display (snd ?fw)
         \<and> length (images (snd (draw_lines ?scr1 (fst ?fw) 0 ls (snd ?fw)))) = length (images (snd ?fw))
         \<and> im_ops (images (snd (draw_lines ?scr1 (fst ?fw) 0 ls (snd ?fw))) ! d_draw (display (snd ?fw)))
             = im_ops (images (snd ?fw) ! d_draw (display (snd ?fw)))
               @ map (\<lambda>(i, t). Text (text_indent ?scr1, table ! i) t (fst ?fw) 255)
                   (zip [0..<0 + length ls] ls)"
    using ty len assms(2,3) by (intro draw_lines_all) (simp_all add: font_frame)
  then show ?thesis
    using ty assms(1)
    by (intro exI [of _ table]) (simp add: display_text_def Let_def split_def font_frame ind)
qed

text \<open>
  C1, on the code.  Seven lines: \<open>set_text_lines\<close> records 7 and the font size 10, the font
  is resolved, and \<^verbatim>\<open>self.text_y[0]\<close> raises TypeError, \<open>text_y\<close> being \<^verbatim>\<open>None\<close>; nothing has
  been drawn on the canvas.
\<close>

theorem display_text_seven_lines:
  "(case display_text [''L1'', ''L2'', ''L3'', ''L4'', ''L5'', ''L6'', ''L7'']
           (BaseScreen_init ''StatusScreen'' 5 utils0) world0 of
      (r, scr1, w1) \<Rightarrow>
        r = Inl TypeError \<and> images w1 = images world0 \<and> text_lines scr1 = Some 7
        \<and> font_size scr1 = 10)"
  by code_simp


section \<open>Elapsed time\<close>






















section \<open>The status screen\<close>

text \<open>
  C2, on the code.  With the collaborator answering \<^verbatim>\<open>pi\<close> for the host name, \<^verbatim>\<open>on\<close> for the
  ping state, a boot time ninety minutes back and \<^verbatim>\<open>7\<close> for every other entity,
  \<open>StatusScreen_render\<close> draws five lines, takes one screenshot, flips the device once (the
  second \<^verbatim>\<open>display()\<close> call after the one of the constructor) and pauses once.  The first
  line is the bare host name: the line built from host name and time is not the one
  passed on.
\<close>

theorem StatusScreen_render_first_line:
  "(case StatusScreen_render (BaseScreen_init ''StatusScreen'' 5 utils0) world1 of
      (r, scr1, w1) \<Rightarrow>
        r = Inr ()
        \<and> fst (human_readable_time_now world1) = ''T[01:30:00]''
        \<and> im_ops (images w1 ! d_image (display w1)) =
            [Text (0, 0) ''pi'' 0 255,
             Text (0, 11) (''C7% M7% D7% t7'' @ [CHR 0xB0] @ ''C'') 0 255,
             Text (0, 21) ''A 7 7'' 0 255,
             Text (0, 31) ''P7 U7 D7'' 0 255,
             Text (0, 41) ''B 1.50h ago'' 0 255]
        \<and> map fst (saved w1) = [''./img/examples/status.png'']
        \<and> length (filter (\<lambda>c. c = Show) (dev_calls (d_device (display w1)))) = 2
        \<and> slept w1 = [5])"
  by code_simp


section \<open>The name of a screen\<close>

text \<open>
  \<open>str_replace\<close> leaves a string without the pattern as it is, and returns what precedes
  the pattern when the pattern occurs at the end and nowhere else.
\<close>

lemma str_replace_absent:
  "old \<noteq> [] \<Longrightarrow> \<not> sublist old s \<Longrightarrow> str_replace old new s = s"
proof (induction s)
  case Nil
  then show ?case by simp
next
  case (Cons c cs)
  have np: "\<not> prefix old (c # cs)" and ns: "\<not> sublist old cs"
    using Cons.prems(2) by (simp_all add: sublist_Cons_right)
  show ?case
    using Cons.prems(1) np Cons.IH [OF Cons.prems(1) ns] by simp
qed

lemma prefix_butlast:
  assumes "prefix old xs" and "length old < length xs"
  shows "prefix old (butlast xs)"
proof -
  obtain zs where xs: "xs = old @ zs"
    using assms(1) by (auto simp: prefix_def)
  with assms(2) have "zs \<noteq> []" by auto
  then have "butlast xs = old @ butlast zs"
    by (simp add: xs butlast_append)
  then show ?thesis by simp
qed

lemma str_replace_only_suffix:
  "old \<noteq> [] \<Longrightarrow> \<not> sublist old (butlast (b @ old)) \<Longrightarrow> str_replace old [] (b @ old) = b"
proof (induction b)
  case Nil
  then obtain c cs where old: "old = c # cs" by (cases old) auto
  show ?case by (simp add: old)
next
  case (Cons c b)
  have bl: "butlast ((c # b) @ old) = c # butlast (b @ old)"
    using Cons.prems(1) by simp
  have np: "\<not> prefix old (c # b @ old)"
  proof
    assume "prefix old (c # b @ old)"
    then have "prefix old (butlast (c # b @ old))"
      by (rule prefix_butlast) simp
    then have "sublist old (butlast ((c # b) @ old))"
      by (simp add: prefix_imp_sublist)
    with Cons.prems(2) show False by simp
  qed
  have ns: "\<not> sublist old (butlast (b @ old))"
    using Cons.prems(2) by (simp only: bl sublist_Cons_right de_Morgan_disj) simp
  show ?case
    using Cons.prems(1) np Cons.IH [OF Cons.prems(1) ns] by simp
qed

lemma sublist_butlast:
  assumes "sublist old s" and "\<not> suffix old s"
  shows "sublist old (butlast s)"
proof -
  obtain ps ss where s: "s = ps @ old @ ss"
    using assms(1) by (auto simp: sublist_def)
  have "ss \<noteq> []"
    using assms(2) s by (auto simp: suffix_def)
  then have "butlast s = ps @ old @ butlast ss"
    by (simp add: s butlast_append)
  then show ?thesis
    by (auto simp: sublist_def)
qed

text \<open>
  C8, as amended.  For a screen class whose name, in lower case, contains \<^verbatim>\<open>screen\<close> nowhere
  before its last position (so at most as a trailing suffix), \<open>name\<close> is the class name in
  lower case with that suffix removed.
\<close>

theorem name_strips_trailing_screen:
  assumes "\<not> sublist ''screen'' (butlast (lower (class_name scr)))"
  shows "name scr = documented_name scr"
proof (cases "suffix ''screen'' (lower (class_name scr))")
  case True
  then obtain b where b: "lower (class_name scr) = b @ ''screen''"
    by (auto simp: suffix_def)
  have "str_replace ''screen'' [] (b @ ''screen'') = b"
    using assms b by (intro str_replace_only_suffix) simp_all
  then show ?thesis
    using True by (simp add: name_def documented_name_def strip_suffix_screen_def b)
next
  case False
  have "\<not> sublist ''screen'' (lower (class_name scr))"
    using assms False sublist_butlast by blast
  then have "str_replace ''screen'' [] (lower (class_name scr)) = lower (class_name scr)"
    by (intro str_replace_absent) simp_all
  then show ?thesis
    using False by (simp add: name_def documented_name_def strip_suffix_screen_def)
qed

theorem name_strips_trailing_screen_witness:
  "\<not> sublist ''screen'' (butlast (lower (class_name (BaseScreen_init ''StatusScreen'' 5 utils0))))
   \<and> name (BaseScreen_init ''StatusScreen'' 5 utils0) = ''status''
   \<and> documented_name (BaseScreen_init ''StatusScreen'' 5 utils0) = ''status''"
proof -
  let ?scr = "BaseScreen_init ''StatusScreen'' 5 utils0"
  have h: "\<not> sublist ''screen'' (butlast (lower (class_name ?scr)))"
    by code_simp
  have d: "documented_name ?scr = ''status''"
    by code_simp
  show ?thesis
    using h d name_strips_trailing_screen [OF h] by simp
qed

text \<open>
  C8 as stated fails: every occurrence of \<^verbatim>\<open>screen\<close> is removed, not only a trailing one.  A
  class \<^verbatim>\<open>ScreenSaverScreen\<close> is named \<^verbatim>\<open>saver\<close>, where stripping the suffix gives
  \<^verbatim>\<open>screensaver\<close>.
\<close>

theorem name_screen_saver_counterexample:
  "name (BaseScreen_init ''ScreenSaverScreen'' 5 utils0) = ''saver''
   \<and> documented_name (BaseScreen_init ''ScreenSaverScreen'' 5 utils0) = ''screensaver''
   \<and> name (BaseScreen_init ''ScreenSaverScreen'' 5 utils0)
       \<noteq> documented_name (BaseScreen_init ''ScreenSaverScreen'' 5 utils0)"
  by code_simp


section \<open>The font cache\<close>














end
